theory Spec2Isabelle
  imports Main "HOL-Library.Word"
begin

section \<open>Values exchanged with the outside\<close>

text \<open>
  The server of \<^verbatim>\<open>src/index.js\<close> answers every request with a status code and an
  optional JSON body. The JSON values it builds are strings, numbers, arrays, objects
  and \<^verbatim>\<open>null\<close>; an object keeps its fields in the order the source writes them.
\<close>

datatype json =
    JNull
  | JStr string
  | JNum int
  | JArr "json list"
  | JObj "(string \<times> json) list"

record response =
  status :: nat
  body :: "json option"

text \<open>A thrown JavaScript error: the handlers read its \<^verbatim>\<open>name\<close> and its \<^verbatim>\<open>message\<close>.\<close>

record fault =
  name :: string
  message :: string

text \<open>The file multer leaves in \<^verbatim>\<open>req.file\<close> (memory storage).\<close>

record uploaded_file =
  originalname :: string
  mimetype :: string
  buffer :: "8 word list"
  file_size :: nat

record request =
  req_file :: "uploaded_file option"
  params_id :: string

section \<open>The storage collaborator\<close>

text \<open>
  Inputs of the S3 commands the source constructs. \<^verbatim>\<open>process.env\<close> entries may be unset,
  so the bucket is optional, as it is in JavaScript.
\<close>

record object_ref =
  Bucket :: "string option"
  Key :: string

record put_input = object_ref +
  Body :: "8 word list"
  ContentType :: string
  Metadata :: "(string \<times> string) list option"

record list_input =
  list_Bucket :: "string option"
  Prefix :: "string option"

record s3_object =
  object_Key :: string
  LastModified :: string
  Size :: int

text \<open>
  The output of a listing: \<^verbatim>\<open>Contents\<close> is an optional member of the SDK's output
  (it is \<^verbatim>\<open>undefined\<close> when the listing holds no object), which is why the plain list
  handler writes \<^verbatim>\<open>response.Contents || []\<close>.
\<close>

record list_output =
  Contents :: "s3_object list option"

record head_output =
  head_Metadata :: "(string \<rightharpoonup> string) option"

datatype s3_command =
    PutObjectCommand put_input
  | GetObjectCommand object_ref
  | DeleteObjectCommand object_ref
  | ListObjectsV2Command list_input
  | HeadObjectCommand object_ref

text \<open>
  What a handler asks of the collaborator: a command sent through the client, or a
  signed URL minted for a command with a validity in seconds.
\<close>

datatype s3_call =
    Send s3_command
  | GetSignedUrl s3_command nat

text \<open>
  Everything a handler reads from outside its request: the environment, the clock, the
  UUID generator and the answers of the storage service. A call either faults
  (\<open>Inl\<close>, the rejected promise) or returns its output (\<open>Inr\<close>).
\<close>

record world =
  S3_BUCKET_NAME :: "string option"
  AWS_REGION :: "string option"
  Date_now :: int
  uuidv4 :: string
  toISOString_now :: string
  send_put :: "put_input \<Rightarrow> fault + unit"
  send_list :: "list_input \<Rightarrow> fault + list_output"
  send_head :: "object_ref \<Rightarrow> fault + head_output"
  send_delete :: "object_ref \<Rightarrow> fault + unit"
  getSignedUrl :: "object_ref \<Rightarrow> nat \<Rightarrow> fault + string"

type_synonym outcome = "response \<times> s3_call list"

section \<open>JavaScript string primitives\<close>

text \<open>
  \<^verbatim>\<open>Number.prototype.toString\<close> on an integer: its decimal digits, with a sign.
  \<^verbatim>\<open>Date.now()\<close> is a whole number of milliseconds of at most sixteen digits, far below
  the magnitude at which JavaScript prints a number with an exponent.
\<close>

definition digit_char :: "nat \<Rightarrow> char" where
  "digit_char d = ''0123456789'' ! (d mod 10)"

fun digits :: "nat \<Rightarrow> string" where
  "digits n = (if n < 10 then [digit_char n] else digits (n div 10) @ [digit_char (n mod 10)])"

declare digits.simps [simp del]

definition toString :: "int \<Rightarrow> string" where
  "toString i = (if i < 0 then CHR ''-'' # digits (nat (- i)) else digits (nat i))"

text \<open>The value a string of decimal digits denotes, read from the left.\<close>

definition digit_value :: "char \<Rightarrow> nat" where
  "digit_value c = of_char c - 48"

definition decimal_value :: "string \<Rightarrow> nat" where
  "decimal_value s = foldl (\<lambda>acc c. 10 * acc + digit_value c) 0 s"

text \<open>
  \<^verbatim>\<open>String.prototype.split\<close> with a one-character separator: the pieces between the
  separators, never an empty array. \<^verbatim>\<open>pop()\<close> on its result is the last piece.
\<close>

fun js_split :: "char \<Rightarrow> string \<Rightarrow> string list" where
  "js_split sep [] = [[]]"
| "js_split sep (c # cs) =
     (if c = sep then [] # js_split sep cs
      else (c # hd (js_split sep cs)) # tl (js_split sep cs))"

definition pop :: "string list \<Rightarrow> string" where
  "pop pieces = last pieces"

text \<open>A template literal prints an unset value as \<^verbatim>\<open>undefined\<close>.\<close>

definition template :: "string option \<Rightarrow> string" where
  "template v = (case v of None \<Rightarrow> ''undefined'' | Some s \<Rightarrow> s)"

text \<open>
  \<^verbatim>\<open>a || b\<close> on an optional string: \<^verbatim>\<open>b\<close> when \<^verbatim>\<open>a\<close> is undefined or the empty
  string, the two falsy values a string-valued property can have.
\<close>

definition js_or :: "string option \<Rightarrow> string \<Rightarrow> string" where
  "js_or a b = (case a of None \<Rightarrow> b | Some s \<Rightarrow> if s = [] then b else s)"

text \<open>\<^verbatim>\<open>metadata.Metadata?.originalname\<close>\<close>

definition metadata_originalname :: "head_output \<Rightarrow> string option" where
  "metadata_originalname metadata =
     (case head_Metadata metadata of None \<Rightarrow> None | Some m \<Rightarrow> m ''originalname'')"

text \<open>Reading a field of a JSON object.\<close>

fun field :: "json \<Rightarrow> string \<Rightarrow> json option" where
  "field (JObj fs) k = map_of fs k"
| "field _ k = None"

section \<open>The handlers\<close>

definition json_response :: "nat \<Rightarrow> json \<Rightarrow> response" where
  "json_response code j = \<lparr>status = code, body = Some j\<rparr>"

subsection \<open>POST /upload\<close>

definition upload_params :: "world \<Rightarrow> uploaded_file \<Rightarrow> put_input" where
  "upload_params w f =
     \<lparr>Bucket = S3_BUCKET_NAME w,
      Key = toString (Date_now w) @ ''-'' @ originalname f,
      Body = buffer f,
      ContentType = mimetype f,
      Metadata = None\<rparr>"

definition post_upload :: "world \<Rightarrow> request \<Rightarrow> outcome" where
  "post_upload w req =
     (case req_file req of
        None \<Rightarrow> (json_response 400 (JObj [(''error'', JStr ''No file uploaded'')]), [])
      | Some f \<Rightarrow>
          let params = upload_params w f in
          (case send_put w params of
             Inl err \<Rightarrow>
               (json_response 500
                  (JObj [(''error'', JStr ''Upload failed''), (''details'', JStr (message err))]),
                [Send (PutObjectCommand params)])
           | Inr _ \<Rightarrow>
               let fileUrl = ''https://'' @ template (S3_BUCKET_NAME w) @ ''.s3.''
                             @ template (AWS_REGION w) @ ''.amazonaws.com/'' @ Key params in
               (json_response 200
                  (JObj [(''message'', JStr ''Upload successful''),
                         (''location'', JStr fileUrl),
                         (''key'', JStr (Key params))]),
                [Send (PutObjectCommand params)])))"

text \<open>
  The route itself: \<^verbatim>\<open>app.post('/upload', upload.single('video'), ...)\<close> mounts multer as
  a middleware in front of the callback above. When the parsing of the body faults, multer
  calls \<^verbatim>\<open>next(err)\<close> and the callback never runs. The file installs no error handler,
  so the fault reaches the default error handler of Express: a fault without a status code
  of its own (multer's and the multipart parser's carry none) is answered 500 with an HTML
  page, which is no JSON body. \<open>err\<close> is the fault of the body parsing, if any, as in
  the callback of \<^verbatim>\<open>POST /api/audio\<close>.
\<close>

definition express_default_error :: "fault \<Rightarrow> response" where
  "express_default_error err = \<lparr>status = 500, body = None\<rparr>"

definition post_upload_route :: "world \<Rightarrow> fault option \<Rightarrow> request \<Rightarrow> outcome" where
  "post_upload_route w err req =
     (case err of
        Some e \<Rightarrow> (express_default_error e, [])
      | None \<Rightarrow> post_upload w req)"

subsection \<open>GET /videos\<close>

text \<open>
  \<^verbatim>\<open>Promise.all\<close> over the mapped callbacks: every callback is started, so every signed
  URL is asked for; the whole listing is rejected as soon as one of them is.
\<close>

fun promise_all :: "(fault + 'a) list \<Rightarrow> fault + 'a list" where
  "promise_all [] = Inr []"
| "promise_all (Inl err # ps) = Inl err"
| "promise_all (Inr v # ps) = (case promise_all ps of Inl err \<Rightarrow> Inl err | Inr vs \<Rightarrow> Inr (v # vs))"

definition object_at :: "world \<Rightarrow> string \<Rightarrow> object_ref" where
  "object_at w k = \<lparr>Bucket = S3_BUCKET_NAME w, Key = k\<rparr>"

definition video_entry :: "world \<Rightarrow> s3_object \<Rightarrow> fault + json" where
  "video_entry w f =
     (case getSignedUrl w (object_at w (object_Key f)) 3600 of
        Inl err \<Rightarrow> Inl err
      | Inr signedUrl \<Rightarrow>
          Inr (JObj [(''name'', JStr (object_Key f)),
                     (''url'', JStr signedUrl),
                     (''lastModified'', JStr (LastModified f)),
                     (''size'', JNum (Size f))]))"

definition get_videos :: "world \<Rightarrow> outcome" where
  "get_videos w =
     (let command = \<lparr>list_Bucket = S3_BUCKET_NAME w, Prefix = None\<rparr> in
      case send_list w command of
        Inl err \<Rightarrow>
          (json_response 500 (JObj [(''error'', JStr ''Failed to fetch videos'')]),
           [Send (ListObjectsV2Command command)])
      | Inr response \<Rightarrow>
          let files = (case Contents response of None \<Rightarrow> [] | Some fs \<Rightarrow> fs);
              calls = Send (ListObjectsV2Command command)
                      # map (\<lambda>f. GetSignedUrl (GetObjectCommand (object_at w (object_Key f))) 3600) files
          in (case promise_all (map (video_entry w) files) of
                Inl err \<Rightarrow> (json_response 500 (JObj [(''error'', JStr ''Failed to fetch videos'')]), calls)
              | Inr videos \<Rightarrow> (json_response 200 (JArr videos), calls)))"

subsection \<open>POST /api/audio\<close>

definition audio_fileId :: "world \<Rightarrow> uploaded_file \<Rightarrow> string" where
  "audio_fileId w f =
     (let fileExtension = pop (js_split CHR ''.'' (originalname f)) in
      toString (Date_now w) @ ''-'' @ uuidv4 w @ ''.'' @ fileExtension)"

definition audio_params :: "world \<Rightarrow> uploaded_file \<Rightarrow> put_input" where
  "audio_params w f =
     \<lparr>Bucket = S3_BUCKET_NAME w,
      Key = ''audio/'' @ audio_fileId w f,
      Body = buffer f,
      ContentType = mimetype f,
      Metadata = Some [(''originalname'', originalname f)]\<rparr>"

text \<open>
  The callback handed to multer's \<^verbatim>\<open>audioUpload\<close>: \<open>err\<close> is the fault of the body
  parsing, if any.
\<close>

definition post_api_audio :: "world \<Rightarrow> fault option \<Rightarrow> request \<Rightarrow> outcome" where
  "post_api_audio w err req =
     (case err of
        Some e \<Rightarrow>
          (json_response 400
             (JObj [(''error'', JStr ''Audio upload error''), (''details'', JStr (message e))]), [])
      | None \<Rightarrow>
     (case req_file req of
        None \<Rightarrow> (json_response 400 (JObj [(''error'', JStr ''No audio file uploaded'')]), [])
      | Some f \<Rightarrow>
          let fileId = audio_fileId w f;
              params = audio_params w f;
              failed = (\<lambda>e. json_response 500
                         (JObj [(''error'', JStr ''Audio upload failed''), (''details'', JStr (message e))]))
          in
          (case send_put w params of
             Inl e \<Rightarrow> (failed e, [Send (PutObjectCommand params)])
           | Inr _ \<Rightarrow>
               let calls = [Send (PutObjectCommand params),
                            GetSignedUrl (GetObjectCommand (object_at w (Key params))) 3600] in
               (case getSignedUrl w (object_at w (Key params)) 3600 of
                  Inl e \<Rightarrow> (failed e, calls)
                | Inr signedUrl \<Rightarrow>
                    (json_response 201
                       (JObj [(''id'', JStr fileId),
                              (''name'', JStr (originalname f)),
                              (''audioUrl'', JStr signedUrl),
                              (''createdAt'', JStr (toISOString_now w)),
                              (''size'', JNum (int (file_size f))),
                              (''type'', JStr (mimetype f))]),
                     calls)))))"

subsection \<open>GET /api/audio\<close>

text \<open>
  The callback mapped over \<^verbatim>\<open>response.Contents\<close>. Its \<^verbatim>\<open>try\<close> block holds the metadata
  fetch and the minting of the signed URL; the \<^verbatim>\<open>catch\<close> returns \<^verbatim>\<open>null\<close>.
\<close>

definition audio_entry :: "world \<Rightarrow> s3_object \<Rightarrow> json" where
  "audio_entry w f =
     (case send_head w (object_at w (object_Key f)) of
        Inl error \<Rightarrow> JNull
      | Inr metadata \<Rightarrow>
          let originalName = js_or (metadata_originalname metadata)
                                   (pop (js_split CHR ''/'' (object_Key f))) in
          (case getSignedUrl w (object_at w (object_Key f)) 3600 of
             Inl error \<Rightarrow> JNull
           | Inr signedUrl \<Rightarrow>
               JObj [(''id'', JStr (pop (js_split CHR ''/'' (object_Key f)))),
                     (''name'', JStr originalName),
                     (''url'', JStr signedUrl),
                     (''lastModified'', JStr (LastModified f)),
                     (''size'', JNum (Size f)),
                     (''type'', JStr (pop (js_split CHR ''.'' (object_Key f))))]))"

text \<open>
  The calls of one listing: the enumeration, then a metadata fetch for every object
  (each callback runs up to its first \<^verbatim>\<open>await\<close>), then a signed URL for every object
  whose metadata arrived.
\<close>

definition audio_calls :: "world \<Rightarrow> s3_object list \<Rightarrow> s3_call list" where
  "audio_calls w files =
     map (\<lambda>f. Send (HeadObjectCommand (object_at w (object_Key f)))) files
     @ map (\<lambda>f. GetSignedUrl (GetObjectCommand (object_at w (object_Key f))) 3600)
         (filter (\<lambda>f. case send_head w (object_at w (object_Key f)) of
                         Inl error \<Rightarrow> False | Inr metadata \<Rightarrow> True) files)"

text \<open>
  \<^verbatim>\<open>response.Contents.map\<close> throws a TypeError when \<^verbatim>\<open>Contents\<close> is undefined; the outer
  \<^verbatim>\<open>catch\<close> answers it like a fault of the enumeration.
\<close>

definition get_api_audio :: "world \<Rightarrow> outcome" where
  "get_api_audio w =
     (let command = \<lparr>list_Bucket = S3_BUCKET_NAME w, Prefix = Some ''audio/''\<rparr>;
          failed = json_response 500 (JObj [(''error'', JStr ''Failed to fetch audio recordings'')])
      in
      case send_list w command of
        Inl err \<Rightarrow> (failed, [Send (ListObjectsV2Command command)])
      | Inr response \<Rightarrow>
          (case Contents response of
             None \<Rightarrow> (failed, [Send (ListObjectsV2Command command)])
           | Some files \<Rightarrow>
               let audioFiles = map (audio_entry w) files in
               (json_response 200 (JArr (filter (\<lambda>file. file \<noteq> JNull) audioFiles)),
                Send (ListObjectsV2Command command) # audio_calls w files)))"

subsection \<open>GET /api/audio/:id\<close>

definition get_audio_failed :: "fault \<Rightarrow> response" where
  "get_audio_failed err =
     (if name err = ''NotFound''
      then json_response 404 (JObj [(''error'', JStr ''Audio recording not found'')])
      else json_response 500 (JObj [(''error'', JStr ''Failed to fetch audio recording'')]))"

definition get_api_audio_id :: "world \<Rightarrow> request \<Rightarrow> outcome" where
  "get_api_audio_id w req =
     (let key = ''audio/'' @ params_id req in
      case send_head w (object_at w key) of
        Inl err \<Rightarrow> (get_audio_failed err, [Send (HeadObjectCommand (object_at w key))])
      | Inr metadata \<Rightarrow>
          let originalName = js_or (metadata_originalname metadata) (params_id req);
              calls = [Send (HeadObjectCommand (object_at w key)),
                       GetSignedUrl (GetObjectCommand (object_at w key)) 3600]
          in
          (case getSignedUrl w (object_at w key) 3600 of
             Inl err \<Rightarrow> (get_audio_failed err, calls)
           | Inr signedUrl \<Rightarrow>
               (json_response 200
                  (JObj [(''id'', JStr (params_id req)),
                         (''name'', JStr originalName),
                         (''url'', JStr signedUrl)]),
                calls)))"

subsection \<open>DELETE /api/audio/:id\<close>

definition delete_api_audio_id :: "world \<Rightarrow> request \<Rightarrow> outcome" where
  "delete_api_audio_id w req =
     (let target = object_at w (''audio/'' @ params_id req) in
      case send_delete w target of
        Inl err \<Rightarrow>
          (json_response 500 (JObj [(''error'', JStr ''Failed to delete audio recording'')]),
           [Send (DeleteObjectCommand target)])
      | Inr _ \<Rightarrow> (\<lparr>status = 204, body = None\<rparr>, [Send (DeleteObjectCommand target)]))"

text \<open>Reading a field of a response's body; nothing when there is no body or no such field.\<close>

definition body_field :: "response \<Rightarrow> string \<Rightarrow> json option" where
  "body_field r k = (case body r of None \<Rightarrow> None | Some j \<Rightarrow> field j k)"

section \<open>Concrete requests and storage behaviours\<close>

text \<open>
  Inputs on which the theorems below are exercised: an upload of \<^verbatim>\<open>clip.mp4\<close>, an upload
  of \<^verbatim>\<open>demo.wav\<close>, a listing of three audio objects, and storage services that answer,
  fault on one object, or fault on every call.
\<close>

definition clip_file :: uploaded_file where
  "clip_file = \<lparr>originalname = ''clip.mp4'', mimetype = ''video/mp4'', buffer = [0, 1, 2], file_size = 3\<rparr>"

definition demo_file :: uploaded_file where
  "demo_file = \<lparr>originalname = ''demo.wav'', mimetype = ''audio/wav'', buffer = [82, 73], file_size = 2\<rparr>"

definition clip_request :: request where
  "clip_request = \<lparr>req_file = Some clip_file, params_id = []\<rparr>"

definition demo_request :: request where
  "demo_request = \<lparr>req_file = Some demo_file, params_id = []\<rparr>"

definition bare_file :: uploaded_file where
  "bare_file = \<lparr>originalname = ''README'', mimetype = ''audio/ogg'', buffer = [7], file_size = 1\<rparr>"

definition bare_request :: request where
  "bare_request = \<lparr>req_file = Some bare_file, params_id = []\<rparr>"


definition id_request :: "string \<Rightarrow> request" where
  "id_request i = \<lparr>req_file = None, params_id = i\<rparr>"

definition listing :: "s3_object list" where
  "listing =
     [\<lparr>object_Key = ''audio/17-aa.wav'', LastModified = ''2023-11-14T22:13:20.000Z'', Size = 1000\<rparr>,
      \<lparr>object_Key = ''audio/18-bb.mp3'', LastModified = ''2023-11-14T22:13:21.000Z'', Size = 2000\<rparr>,
      \<lparr>object_Key = ''audio/19-cc.ogg'', LastModified = ''2023-11-14T22:13:22.000Z'', Size = 3000\<rparr>]"

definition slow_down :: fault where
  "slow_down = \<lparr>name = ''SlowDown'', message = ''Please reduce your request rate.''\<rparr>"


definition not_found :: fault where
  "not_found = \<lparr>name = ''NotFound'', message = ''UnknownError''\<rparr>"

text \<open>
  A service that answers every call. The first object carries its original name, the
  second an empty one, the third none.
\<close>

definition calm_world :: world where
  "calm_world =
     \<lparr>S3_BUCKET_NAME = Some ''media'',
      AWS_REGION = Some ''eu-west-1'',
      Date_now = 1700000000123,
      uuidv4 = ''9b2e'',
      toISOString_now = ''2023-11-14T22:13:20.125Z'',
      send_put = (\<lambda>p. Inr ()),
      send_list = (\<lambda>i. Inr \<lparr>Contents = Some listing\<rparr>),
      send_head = (\<lambda>r. Inr \<lparr>head_Metadata =
                     (if Key r = ''audio/17-aa.wav'' then Some [''originalname'' \<mapsto> ''demo.wav'']
                      else if Key r = ''audio/18-bb.mp3'' then Some [''originalname'' \<mapsto> []]
                      else Some Map.empty)\<rparr>),
      send_delete = (\<lambda>r. Inr ()),
      getSignedUrl = (\<lambda>r ttl. Inr (''https://signed/'' @ Key r))\<rparr>"

definition faulty_world :: world where
  "faulty_world =
     calm_world\<lparr>send_put := (\<lambda>p. Inl slow_down),
                send_list := (\<lambda>i. Inl slow_down),
                send_head := (\<lambda>r. Inl slow_down),
                send_delete := (\<lambda>r. Inl slow_down),
                getSignedUrl := (\<lambda>r ttl. Inl slow_down)\<rparr>"

definition head_fault_world :: world where
  "head_fault_world =
     calm_world\<lparr>send_head := (\<lambda>r. if Key r = ''audio/18-bb.mp3'' then Inl slow_down
                                   else send_head calm_world r)\<rparr>"

definition sign_fault_world :: world where
  "sign_fault_world =
     calm_world\<lparr>getSignedUrl := (\<lambda>r ttl. if Key r = ''audio/18-bb.mp3'' then Inl slow_down
                                          else getSignedUrl calm_world r ttl)\<rparr>"

definition absent_world :: world where
  "absent_world = calm_world\<lparr>send_head := (\<lambda>r. Inl not_found)\<rparr>"

definition unsigned_world :: world where
  "unsigned_world = calm_world\<lparr>getSignedUrl := (\<lambda>r ttl. Inl slow_down)\<rparr>"

definition empty_listing_world :: world where
  "empty_listing_world = calm_world\<lparr>send_list := (\<lambda>i. Inr \<lparr>Contents = None\<rparr>)\<rparr>"

section \<open>Facts about the string primitives\<close>

lemma digit_value_digit_char: "d < 10 \<Longrightarrow> digit_value (digit_char d) = d"
proof -
  assume "d < 10"
  then consider "d = 0" | "d = 1" | "d = 2" | "d = 3" | "d = 4"
    | "d = 5" | "d = 6" | "d = 7" | "d = 8" | "d = 9"
    by atomize_elim arith
  then show ?thesis
    by cases (simp_all add: digit_value_def digit_char_def)
qed

lemma digit_char_is_digit: "digit_char d \<in> set ''0123456789''"
proof -
  have "d mod 10 < length ''0123456789''" by simp
  then show ?thesis unfolding digit_char_def by (rule nth_mem)
qed

lemma decimal_value_snoc: "decimal_value (s @ [c]) = 10 * decimal_value s + digit_value c"
  by (simp add: decimal_value_def)

lemma decimal_value_digits: "decimal_value (digits n) = n"
proof (induction n rule: digits.induct)
  case (1 n)
  show ?case
  proof (cases "n < 10")
    case True
    then show ?thesis
      by (simp add: digits.simps[of n] decimal_value_def digit_value_digit_char)
  next
    case False
    then show ?thesis
      using 1 by (simp add: digits.simps[of n] decimal_value_snoc digit_value_digit_char)
  qed
qed

lemma digits_are_digits: "set (digits n) \<subseteq> set ''0123456789''"
proof (induction n rule: digits.induct)
  case (1 n)
  show ?case
  proof (cases "n < 10")
    case True
    then show ?thesis
      using digit_char_is_digit[of n] by (simp add: digits.simps[of n])
  next
    case False
    then show ?thesis
      using 1 digit_char_is_digit[of "n mod 10"] by (simp add: digits.simps[of n])
  qed
qed

text \<open>On a clock that is not before the epoch, \<open>toString\<close> is the decimal numeral of the clock.\<close>

lemma toString_decimal:
  "0 \<le> T \<Longrightarrow> decimal_value (toString T) = nat T \<and> set (toString T) \<subseteq> set ''0123456789''"
  using digits_are_digits[of "nat T"] by (simp add: toString_def decimal_value_digits)

lemma digits_numeral:
  "digits (numeral k) =
     (if (numeral k::nat) < 10 then [digit_char (numeral k)]
      else digits (numeral k div 10) @ [digit_char (numeral k mod 10)])"
  by (rule digits.simps)

lemma digits_0: "digits 0 = ''0''"
  by (simp add: digits.simps digit_char_def)

lemma digits_Suc_0: "digits (Suc 0) = ''1''"
  by (simp add: digits.simps digit_char_def)

lemma toString_clock: "toString 1700000000123 = ''1700000000123''"
  by (simp add: toString_def digits_numeral digits_0 digits_Suc_0 digit_char_def)

lemma js_split_nonempty: "js_split sep s \<noteq> []"
  by (induction s) auto

lemma js_split_no_sep: "sep \<notin> set s \<Longrightarrow> js_split sep s = [s]"
  by (induction s) auto

lemma length_js_split: "length (js_split sep s) = Suc (length (filter (\<lambda>c. c = sep) s))"
proof (induction s)
  case Nil
  show ?case by simp
next
  case (Cons c cs)
  have "length (tl (js_split sep cs)) = length (js_split sep cs) - 1" by simp
  with Cons show ?case by simp
qed

lemma js_split_has_sep: "sep \<in> set s \<Longrightarrow> tl (js_split sep s) \<noteq> []"
proof -
  assume "sep \<in> set s"
  then have "filter (\<lambda>c. c = sep) s \<noteq> []"
    by (simp add: filter_empty_conv)
  then have "2 \<le> length (js_split sep s)"
    by (cases "filter (\<lambda>c. c = sep) s") (simp_all add: length_js_split)
  then show ?thesis
    by (cases "js_split sep s") auto
qed

lemma last_js_split_Cons:
  "last (js_split sep (c # cs)) =
     (if sep \<in> set cs then last (js_split sep cs) else if c = sep then cs else c # cs)"
proof (cases "sep \<in> set cs")
  case True
  then have "tl (js_split sep cs) \<noteq> []" by (rule js_split_has_sep)
  then show ?thesis using True
    by (cases "js_split sep cs") (auto simp: last_tl)
next
  case False
  then show ?thesis by (simp add: js_split_no_sep)
qed

text \<open>The last piece holds no separator: it is the text after the last one.\<close>

lemma pop_js_split_no_sep: "sep \<notin> set (pop (js_split sep s))"
  unfolding pop_def
proof (induction s)
  case Nil
  show ?case by simp
next
  case (Cons c cs)
  then show ?case by (simp only: last_js_split_Cons) auto
qed

lemma pop_js_split_whole: "sep \<notin> set s \<Longrightarrow> pop (js_split sep s) = s"
  by (simp add: pop_def js_split_no_sep)

lemma pop_js_split_after:
  "sep \<in> set s \<Longrightarrow> \<exists>pre. s = pre @ sep # pop (js_split sep s)"
  unfolding pop_def
proof (induction s)
  case Nil
  then show ?case by simp
next
  case (Cons c cs)
  show ?case
  proof (cases "sep \<in> set cs")
    case True
    then obtain pre where "cs = pre @ sep # last (js_split sep cs)"
      using Cons.IH by blast
    then have "c # cs = (c # pre) @ sep # last (js_split sep (c # cs))"
      using True by (simp only: last_js_split_Cons if_True append_Cons)
    then show ?thesis by blast
  next
    case False
    then have "c = sep" using Cons.prems by simp
    then have "c # cs = [] @ sep # last (js_split sep (c # cs))"
      using False by (simp add: js_split_no_sep)
    then show ?thesis by blast
  qed
qed

lemma pop_js_split_append:
  "sep \<notin> set s \<Longrightarrow> pop (js_split sep (pre @ sep # s)) = s"
  unfolding pop_def
proof (induction pre)
  case Nil
  then show ?case by (simp add: js_split_no_sep)
next
  case (Cons c pre)
  then show ?case by (simp only: last_js_split_Cons append_Cons) simp
qed

section \<open>Plain upload\<close>

text \<open>
  Claim C1. A plain upload that carries a file, handled when the clock reads \<open>T\<close>
  milliseconds, asks the storage service exactly once, to put the payload under the key
  made of the decimal string of \<open>T\<close>, a dash and the original file name as it came (on a
  clock not before the epoch that string consists of digits and denotes \<open>T\<close>). When
  the put succeeds the answer is 200 with the success message, the location
  \<^verbatim>\<open>https://{bucket}.s3.{region}.amazonaws.com/{key}\<close> and the key.
\<close>

theorem post_upload_key_location:
  "req_file req = Some f \<Longrightarrow> S3_BUCKET_NAME w = Some bucket \<Longrightarrow> AWS_REGION w = Some region \<Longrightarrow>
   Date_now w = T \<Longrightarrow> key = toString T @ ''-'' @ originalname f \<Longrightarrow>
   params = \<lparr>Bucket = Some bucket, Key = key, Body = buffer f, ContentType = mimetype f,
             Metadata = None\<rparr> \<Longrightarrow>
   snd (post_upload w req) = [Send (PutObjectCommand params)] \<and>
   (0 \<le> T \<longrightarrow> decimal_value (toString T) = nat T \<and> set (toString T) \<subseteq> set ''0123456789'') \<and>
   (\<forall>u. send_put w params = Inr u \<longrightarrow>
      fst (post_upload w req) =
        \<lparr>status = 200,
         body = Some (JObj [(''message'', JStr ''Upload successful''),
                 (''location'',
                  JStr (''https://'' @ bucket @ ''.s3.'' @ region @ ''.amazonaws.com/'' @ key)),
                 (''key'', JStr key)])\<rparr>)"
proof -
  assume a: "req_file req = Some f" "S3_BUCKET_NAME w = Some bucket" "AWS_REGION w = Some region"
    "Date_now w = T" "key = toString T @ ''-'' @ originalname f"
    "params = \<lparr>Bucket = Some bucket, Key = key, Body = buffer f, ContentType = mimetype f,
               Metadata = None\<rparr>"
  then have p: "upload_params w f = params"
    by (simp add: upload_params_def)
  have calls: "snd (post_upload w req) = [Send (PutObjectCommand params)]"
    using a(1) p by (simp add: post_upload_def Let_def split: sum.splits)
  have ok: "\<forall>u. send_put w params = Inr u \<longrightarrow>
      fst (post_upload w req) =
        \<lparr>status = 200,
         body = Some (JObj [(''message'', JStr ''Upload successful''),
                 (''location'',
                  JStr (''https://'' @ bucket @ ''.s3.'' @ region @ ''.amazonaws.com/'' @ key)),
                 (''key'', JStr key)])\<rparr>"
    using a p by (simp add: post_upload_def Let_def template_def json_response_def)
  from calls ok toString_decimal[of T] show ?thesis by blast
qed

theorem post_upload_key_location_witness:
  "req_file clip_request = Some clip_file \<and> S3_BUCKET_NAME calm_world = Some ''media'' \<and>
   AWS_REGION calm_world = Some ''eu-west-1'' \<and> Date_now calm_world = 1700000000123 \<and>
   ''1700000000123-clip.mp4'' = toString 1700000000123 @ ''-'' @ originalname clip_file \<and>
   send_put calm_world
     \<lparr>Bucket = Some ''media'', Key = ''1700000000123-clip.mp4'', Body = buffer clip_file,
      ContentType = mimetype clip_file, Metadata = None\<rparr> = Inr () \<and>
   snd (post_upload calm_world clip_request) =
     [Send (PutObjectCommand
        \<lparr>Bucket = Some ''media'', Key = ''1700000000123-clip.mp4'', Body = [0, 1, 2],
         ContentType = ''video/mp4'', Metadata = None\<rparr>)] \<and>
   decimal_value (toString 1700000000123) = 1700000000123 \<and>
   fst (post_upload calm_world clip_request) =
     \<lparr>status = 200,
      body = Some (JObj [(''message'', JStr ''Upload successful''),
              (''location'', JStr ''https://media.s3.eu-west-1.amazonaws.com/1700000000123-clip.mp4''),
              (''key'', JStr ''1700000000123-clip.mp4'')])\<rparr>"
  using post_upload_key_location [of clip_request clip_file calm_world "''media''" "''eu-west-1''"
      1700000000123 "''1700000000123-clip.mp4''"
      "\<lparr>Bucket = Some ''media'', Key = ''1700000000123-clip.mp4'', Body = buffer clip_file,
        ContentType = mimetype clip_file, Metadata = None\<rparr>"]
  by (simp add: clip_request_def clip_file_def calm_world_def toString_clock json_response_def)

section \<open>Uploads without a file\<close>

text \<open>
  A fault of the body parsing on \<^verbatim>\<open>POST /upload\<close> never reaches the callback: it is
  answered 500 by the default error handler, and the storage service is not called.
\<close>

lemma post_upload_route_parse_fault:
  "post_upload_route w (Some e) req = (\<lparr>status = 500, body = None\<rparr>, [])"
  by (simp add: post_upload_route_def express_default_error_def)




section \<open>Identified audio upload\<close>

text \<open>
  Claim C3. An identified audio upload that carries a file uses as extension the text
  after the last dot of the original file name, and the whole name when it has no dot.
  Its first storage call puts the object under \<^verbatim>\<open>audio/{id}\<close>, where the identifier is the
  decimal clock reading, a dash, the generated UUID, a dot and that extension; when the
  put and the signing succeed the answer is 201 and carries this identifier.
\<close>

theorem post_api_audio_identifier:
  "req_file req = Some f \<Longrightarrow>
   \<exists>ext fileId params rest.
     (CHR ''.'' \<notin> set (originalname f) \<longrightarrow> ext = originalname f) \<and>
     (CHR ''.'' \<in> set (originalname f) \<longrightarrow> (\<exists>pre. originalname f = pre @ ''.'' @ ext)) \<and>
     CHR ''.'' \<notin> set ext \<and>
     fileId = toString (Date_now w) @ ''-'' @ uuidv4 w @ ''.'' @ ext \<and>
     snd (post_api_audio w None req) = Send (PutObjectCommand params) # rest \<and>
     Key params = ''audio/'' @ fileId \<and>
     Metadata params = Some [(''originalname'', originalname f)] \<and>
     (\<forall>u signedUrl.
        send_put w params = Inr u \<longrightarrow>
        getSignedUrl w \<lparr>Bucket = S3_BUCKET_NAME w, Key = ''audio/'' @ fileId\<rparr> 3600 = Inr signedUrl \<longrightarrow>
        fst (post_api_audio w None req) =
          \<lparr>status = 201,
           body = Some (JObj [(''id'', JStr fileId),
                              (''name'', JStr (originalname f)),
                              (''audioUrl'', JStr signedUrl),
                              (''createdAt'', JStr (toISOString_now w)),
                              (''size'', JNum (int (file_size f))),
                              (''type'', JStr (mimetype f))])\<rparr>)"
proof -
  assume has_file: "req_file req = Some f"
  define ext where "ext = pop (js_split CHR ''.'' (originalname f))"
  define fileId where "fileId = toString (Date_now w) @ ''-'' @ uuidv4 w @ ''.'' @ ext"
  define params where "params = audio_params w f"
  have id: "audio_fileId w f = fileId"
    by (simp add: audio_fileId_def fileId_def ext_def)
  have key: "Key params = ''audio/'' @ fileId"
    by (simp add: params_def audio_params_def id)
  have meta: "Metadata params = Some [(''originalname'', originalname f)]"
    by (simp add: params_def audio_params_def)
  have whole: "CHR ''.'' \<notin> set (originalname f) \<longrightarrow> ext = originalname f"
    by (simp add: ext_def pop_js_split_whole)
  have after: "CHR ''.'' \<in> set (originalname f) \<longrightarrow> (\<exists>pre. originalname f = pre @ ''.'' @ ext)"
    using pop_js_split_after[of "CHR ''.''" "originalname f"] by (simp add: ext_def)
  have nodot: "CHR ''.'' \<notin> set ext"
    unfolding ext_def by (rule pop_js_split_no_sep)
  have calls: "\<exists>rest. snd (post_api_audio w None req) = Send (PutObjectCommand params) # rest"
    using has_file by (simp add: post_api_audio_def Let_def params_def split: sum.splits)
  then obtain rest where rest: "snd (post_api_audio w None req) = Send (PutObjectCommand params) # rest"
    by blast
  have ok: "\<forall>u signedUrl.
        send_put w params = Inr u \<longrightarrow>
        getSignedUrl w \<lparr>Bucket = S3_BUCKET_NAME w, Key = ''audio/'' @ fileId\<rparr> 3600 = Inr signedUrl \<longrightarrow>
        fst (post_api_audio w None req) =
          \<lparr>status = 201,
           body = Some (JObj [(''id'', JStr fileId),
                              (''name'', JStr (originalname f)),
                              (''audioUrl'', JStr signedUrl),
                              (''createdAt'', JStr (toISOString_now w)),
                              (''size'', JNum (int (file_size f))),
                              (''type'', JStr (mimetype f))])\<rparr>"
    using has_file key id
    by (simp add: post_api_audio_def Let_def params_def[symmetric] object_at_def json_response_def)
  from whole after nodot rest key meta ok fileId_def show ?thesis by blast
qed

theorem post_api_audio_identifier_witness:
  "req_file demo_request = Some demo_file \<and>
   snd (post_api_audio calm_world None demo_request) =
     [Send (PutObjectCommand
        \<lparr>Bucket = Some ''media'', Key = ''audio/1700000000123-9b2e.wav'', Body = [82, 73],
         ContentType = ''audio/wav'', Metadata = Some [(''originalname'', ''demo.wav'')]\<rparr>),
      GetSignedUrl (GetObjectCommand
        \<lparr>Bucket = Some ''media'', Key = ''audio/1700000000123-9b2e.wav''\<rparr>) 3600] \<and>
   fst (post_api_audio calm_world None demo_request) =
     \<lparr>status = 201,
      body = Some (JObj [(''id'', JStr ''1700000000123-9b2e.wav''),
                         (''name'', JStr ''demo.wav''),
                         (''audioUrl'', JStr ''https://signed/audio/1700000000123-9b2e.wav''),
                         (''createdAt'', JStr ''2023-11-14T22:13:20.125Z''),
                         (''size'', JNum 2),
                         (''type'', JStr ''audio/wav'')])\<rparr> \<and>
   req_file bare_request = Some bare_file \<and>
   body_field (fst (post_api_audio calm_world None bare_request)) ''id'' =
     Some (JStr ''1700000000123-9b2e.README'') \<and>
   hd (snd (post_api_audio calm_world None bare_request)) =
     Send (PutObjectCommand
        \<lparr>Bucket = Some ''media'', Key = ''audio/1700000000123-9b2e.README'', Body = [7],
         ContentType = ''audio/ogg'', Metadata = Some [(''originalname'', ''README'')]\<rparr>)"
  using post_api_audio_identifier [of demo_request demo_file calm_world]
    post_api_audio_identifier [of bare_request bare_file calm_world]
  by (simp add: demo_request_def demo_file_def bare_request_def bare_file_def calm_world_def
      post_api_audio_def audio_params_def audio_fileId_def pop_def object_at_def
      json_response_def body_field_def toString_clock Let_def)

section \<open>Fetching one identified asset\<close>

text \<open>
  Claim C6. When the metadata fetch or the signing of a get-by-id request faults, the
  answer is 404 \<^verbatim>\<open>Audio recording not found\<close> if the fault is the storage service's
  not-found signal (a fault named \<^verbatim>\<open>NotFound\<close>), and 500 for any other fault.
\<close>

theorem get_api_audio_id_fault:
  "target = \<lparr>Bucket = S3_BUCKET_NAME w, Key = ''audio/'' @ params_id req\<rparr> \<Longrightarrow>
   send_head w target = Inl err \<or>
     (\<exists>metadata. send_head w target = Inr metadata \<and> getSignedUrl w target 3600 = Inl err) \<Longrightarrow>
   (name err = ''NotFound'' \<longrightarrow>
      fst (get_api_audio_id w req) =
        \<lparr>status = 404, body = Some (JObj [(''error'', JStr ''Audio recording not found'')])\<rparr>) \<and>
   (name err \<noteq> ''NotFound'' \<longrightarrow>
      fst (get_api_audio_id w req) =
        \<lparr>status = 500, body = Some (JObj [(''error'', JStr ''Failed to fetch audio recording'')])\<rparr>)"
  by (auto simp: get_api_audio_id_def get_audio_failed_def object_at_def json_response_def Let_def)

theorem get_api_audio_id_fault_witness:
  "send_head absent_world \<lparr>Bucket = S3_BUCKET_NAME absent_world, Key = ''audio/'' @ params_id (id_request ''17-aa.wav'')\<rparr>
     = Inl not_found \<and>
   name not_found = ''NotFound'' \<and>
   fst (get_api_audio_id absent_world (id_request ''17-aa.wav'')) =
     \<lparr>status = 404, body = Some (JObj [(''error'', JStr ''Audio recording not found'')])\<rparr> \<and>
   (\<exists>metadata. send_head unsigned_world \<lparr>Bucket = S3_BUCKET_NAME unsigned_world, Key = ''audio/'' @ params_id (id_request ''17-aa.wav'')\<rparr>
       = Inr metadata) \<and>
   getSignedUrl unsigned_world \<lparr>Bucket = S3_BUCKET_NAME unsigned_world, Key = ''audio/'' @ params_id (id_request ''17-aa.wav'')\<rparr> 3600
     = Inl slow_down \<and>
   name slow_down \<noteq> ''NotFound'' \<and>
   fst (get_api_audio_id unsigned_world (id_request ''17-aa.wav'')) =
     \<lparr>status = 500, body = Some (JObj [(''error'', JStr ''Failed to fetch audio recording'')])\<rparr>"
  using get_api_audio_id_fault [of "\<lparr>Bucket = S3_BUCKET_NAME absent_world, Key = ''audio/'' @ params_id (id_request ''17-aa.wav'')\<rparr>"
      absent_world "id_request ''17-aa.wav''" not_found]
    get_api_audio_id_fault [of "\<lparr>Bucket = S3_BUCKET_NAME unsigned_world, Key = ''audio/'' @ params_id (id_request ''17-aa.wav'')\<rparr>"
      unsigned_world "id_request ''17-aa.wav''" slow_down]
  by (simp add: absent_world_def unsigned_world_def calm_world_def id_request_def not_found_def slow_down_def)

section \<open>Deleting one identified asset\<close>

text \<open>
  Claim C7. A delete request makes one storage call, the deletion of \<^verbatim>\<open>audio/{id}\<close>, with
  no check that the object exists. Whenever that call succeeds (as a storage service that
  is idempotent on delete does for an absent key as well as for a present one) the answer
  is 204 with no body, and whenever it faults the answer is 500.
\<close>

theorem delete_api_audio_id_outcome:
  "target = \<lparr>Bucket = S3_BUCKET_NAME w, Key = ''audio/'' @ params_id req\<rparr> \<Longrightarrow>
   snd (delete_api_audio_id w req) = [Send (DeleteObjectCommand target)] \<and>
   (\<forall>u. send_delete w target = Inr u \<longrightarrow>
      fst (delete_api_audio_id w req) = \<lparr>status = 204, body = None\<rparr>) \<and>
   (\<forall>err. send_delete w target = Inl err \<longrightarrow>
      fst (delete_api_audio_id w req) =
        \<lparr>status = 500, body = Some (JObj [(''error'', JStr ''Failed to delete audio recording'')])\<rparr>)"
  by (simp add: delete_api_audio_id_def object_at_def json_response_def Let_def split: sum.splits)

theorem delete_api_audio_id_outcome_witness:
  "send_head absent_world \<lparr>Bucket = Some ''media'', Key = ''audio/gone.wav''\<rparr> = Inl not_found \<and>
   send_delete absent_world \<lparr>Bucket = Some ''media'', Key = ''audio/gone.wav''\<rparr> = Inr () \<and>
   delete_api_audio_id absent_world (id_request ''gone.wav'') =
     (\<lparr>status = 204, body = None\<rparr>,
      [Send (DeleteObjectCommand \<lparr>Bucket = Some ''media'', Key = ''audio/gone.wav''\<rparr>)]) \<and>
   delete_api_audio_id calm_world (id_request ''17-aa.wav'') =
     (\<lparr>status = 204, body = None\<rparr>,
      [Send (DeleteObjectCommand \<lparr>Bucket = Some ''media'', Key = ''audio/17-aa.wav''\<rparr>)]) \<and>
   send_delete faulty_world \<lparr>Bucket = Some ''media'', Key = ''audio/17-aa.wav''\<rparr> = Inl slow_down \<and>
   fst (delete_api_audio_id faulty_world (id_request ''17-aa.wav'')) =
     \<lparr>status = 500, body = Some (JObj [(''error'', JStr ''Failed to delete audio recording'')])\<rparr>"
  using delete_api_audio_id_outcome [of "\<lparr>Bucket = Some ''media'', Key = ''audio/gone.wav''\<rparr>"
      absent_world "id_request ''gone.wav''"]
    delete_api_audio_id_outcome [of "\<lparr>Bucket = Some ''media'', Key = ''audio/17-aa.wav''\<rparr>"
      calm_world "id_request ''17-aa.wav''"]
    delete_api_audio_id_outcome [of "\<lparr>Bucket = Some ''media'', Key = ''audio/17-aa.wav''\<rparr>"
      faulty_world "id_request ''17-aa.wav''"]
  by (simp add: absent_world_def faulty_world_def calm_world_def id_request_def prod_eq_iff)

section \<open>Listing identified assets\<close>

lemma pop_js_split_Cons:
  "pop (js_split sep (c # cs)) =
     (if sep \<in> set cs then pop (js_split sep cs) else if c = sep then cs else c # cs)"
  unfolding pop_def by (rule last_js_split_Cons)

lemma audio_entry_head_fault:
  "send_head w \<lparr>Bucket = S3_BUCKET_NAME w, Key = object_Key f\<rparr> = Inl e \<Longrightarrow> audio_entry w f = JNull"
  by (simp add: audio_entry_def object_at_def)

lemma audio_entry_sign_fault:
  "getSignedUrl w \<lparr>Bucket = S3_BUCKET_NAME w, Key = object_Key f\<rparr> 3600 = Inl e \<Longrightarrow>
   audio_entry w f = JNull"
  by (simp add: audio_entry_def object_at_def Let_def split: sum.splits)

lemma audio_entry_fetched:
  "send_head w \<lparr>Bucket = S3_BUCKET_NAME w, Key = object_Key f\<rparr> = Inr metadata \<Longrightarrow>
   getSignedUrl w \<lparr>Bucket = S3_BUCKET_NAME w, Key = object_Key f\<rparr> 3600 = Inr signedUrl \<Longrightarrow>
   audio_entry w f =
     JObj [(''id'', JStr (pop (js_split CHR ''/'' (object_Key f)))),
           (''name'', JStr (js_or (metadata_originalname metadata)
                                  (pop (js_split CHR ''/'' (object_Key f))))),
           (''url'', JStr signedUrl),
           (''lastModified'', JStr (LastModified f)),
           (''size'', JNum (Size f)),
           (''type'', JStr (pop (js_split CHR ''.'' (object_Key f))))]"
  by (simp add: audio_entry_def object_at_def Let_def)

lemma get_api_audio_listed:
  "send_list w \<lparr>list_Bucket = S3_BUCKET_NAME w, Prefix = Some ''audio/''\<rparr> = Inr out \<Longrightarrow>
   Contents out = Some files \<Longrightarrow>
   fst (get_api_audio w) =
     \<lparr>status = 200, body = Some (JArr (filter (\<lambda>j. j \<noteq> JNull) (map (audio_entry w) files)))\<rparr>"
  by (simp add: get_api_audio_def json_response_def Let_def)

lemma get_api_audio_no_contents:
  "send_list w \<lparr>list_Bucket = S3_BUCKET_NAME w, Prefix = Some ''audio/''\<rparr> = Inr out \<Longrightarrow>
   Contents out = None \<Longrightarrow>
   fst (get_api_audio w) =
     \<lparr>status = 500, body = Some (JObj [(''error'', JStr ''Failed to fetch audio recordings'')])\<rparr>"
  by (simp add: get_api_audio_def json_response_def Let_def)

text \<open>Dropping the \<^verbatim>\<open>null\<close> entries keeps exactly the objects whose entry is not \<^verbatim>\<open>null\<close>.\<close>

lemma filter_null_entries:
  "\<forall>f \<in> set files. (keep f \<longrightarrow> entry f \<noteq> JNull) \<and> (\<not> keep f \<longrightarrow> entry f = JNull) \<Longrightarrow>
   filter (\<lambda>j. j \<noteq> JNull) (map entry files) = map entry (filter keep files)"
  by (induction files) auto

lemma entries_without:
  assumes dropped: "\<forall>f \<in> set files. object_Key f = k \<longrightarrow> audio_entry w f = JNull"
    and others: "\<forall>f \<in> set files. object_Key f \<noteq> k \<longrightarrow>
      (\<exists>metadata signedUrl.
         send_head w \<lparr>Bucket = S3_BUCKET_NAME w, Key = object_Key f\<rparr> = Inr metadata \<and>
         getSignedUrl w \<lparr>Bucket = S3_BUCKET_NAME w, Key = object_Key f\<rparr> 3600 = Inr signedUrl)"
  shows "filter (\<lambda>j. j \<noteq> JNull) (map (audio_entry w) files) =
           map (audio_entry w) (filter (\<lambda>f. object_Key f \<noteq> k) files)"
    and "JNull \<notin> set (map (audio_entry w) (filter (\<lambda>f. object_Key f \<noteq> k) files))"
    and "map (\<lambda>j. field j ''id'') (map (audio_entry w) (filter (\<lambda>f. object_Key f \<noteq> k) files)) =
           map (\<lambda>f. Some (JStr (pop (js_split CHR ''/'' (object_Key f)))))
             (filter (\<lambda>f. object_Key f \<noteq> k) files)"
proof -
  have kept: "audio_entry w f \<noteq> JNull \<and>
      field (audio_entry w f) ''id'' = Some (JStr (pop (js_split CHR ''/'' (object_Key f))))"
    if "f \<in> set files" "object_Key f \<noteq> k" for f
  proof -
    from that others obtain metadata signedUrl where
      "send_head w \<lparr>Bucket = S3_BUCKET_NAME w, Key = object_Key f\<rparr> = Inr metadata"
      "getSignedUrl w \<lparr>Bucket = S3_BUCKET_NAME w, Key = object_Key f\<rparr> 3600 = Inr signedUrl"
      by blast
    then show ?thesis by (simp add: audio_entry_fetched)
  qed
  show "filter (\<lambda>j. j \<noteq> JNull) (map (audio_entry w) files) =
           map (audio_entry w) (filter (\<lambda>f. object_Key f \<noteq> k) files)"
    by (rule filter_null_entries) (use dropped kept in auto)
  show "JNull \<notin> set (map (audio_entry w) (filter (\<lambda>f. object_Key f \<noteq> k) files))"
  proof
    assume "JNull \<in> set (map (audio_entry w) (filter (\<lambda>f. object_Key f \<noteq> k) files))"
    then obtain f where "f \<in> set files" "object_Key f \<noteq> k" "audio_entry w f = JNull"
      by auto
    with kept show False by blast
  qed
  show "map (\<lambda>j. field j ''id'') (map (audio_entry w) (filter (\<lambda>f. object_Key f \<noteq> k) files)) =
           map (\<lambda>f. Some (JStr (pop (js_split CHR ''/'' (object_Key f)))))
             (filter (\<lambda>f. object_Key f \<noteq> k) files)"
    using kept by simp
qed

text \<open>The entries of the three listed objects on the storage service that answers every call.\<close>

lemma calm_entries:
  "audio_entry calm_world
     \<lparr>object_Key = ''audio/17-aa.wav'', LastModified = ''2023-11-14T22:13:20.000Z'', Size = 1000\<rparr> =
   JObj [(''id'', JStr ''17-aa.wav''), (''name'', JStr ''demo.wav''),
         (''url'', JStr ''https://signed/audio/17-aa.wav''),
         (''lastModified'', JStr ''2023-11-14T22:13:20.000Z''), (''size'', JNum 1000),
         (''type'', JStr ''wav'')]"
  "audio_entry calm_world
     \<lparr>object_Key = ''audio/18-bb.mp3'', LastModified = ''2023-11-14T22:13:21.000Z'', Size = 2000\<rparr> =
   JObj [(''id'', JStr ''18-bb.mp3''), (''name'', JStr ''18-bb.mp3''),
         (''url'', JStr ''https://signed/audio/18-bb.mp3''),
         (''lastModified'', JStr ''2023-11-14T22:13:21.000Z''), (''size'', JNum 2000),
         (''type'', JStr ''mp3'')]"
  "audio_entry calm_world
     \<lparr>object_Key = ''audio/19-cc.ogg'', LastModified = ''2023-11-14T22:13:22.000Z'', Size = 3000\<rparr> =
   JObj [(''id'', JStr ''19-cc.ogg''), (''name'', JStr ''19-cc.ogg''),
         (''url'', JStr ''https://signed/audio/19-cc.ogg''),
         (''lastModified'', JStr ''2023-11-14T22:13:22.000Z''), (''size'', JNum 3000),
         (''type'', JStr ''ogg'')]"
  by (simp_all add: audio_entry_def calm_world_def object_at_def js_or_def metadata_originalname_def
      pop_js_split_Cons del: js_split.simps)

lemma fault_entries:
  "audio_entry head_fault_world
     \<lparr>object_Key = ''audio/18-bb.mp3'', LastModified = ''2023-11-14T22:13:21.000Z'', Size = 2000\<rparr> = JNull"
  "audio_entry sign_fault_world
     \<lparr>object_Key = ''audio/18-bb.mp3'', LastModified = ''2023-11-14T22:13:21.000Z'', Size = 2000\<rparr> = JNull"
  "object_Key f \<noteq> ''audio/18-bb.mp3'' \<Longrightarrow> audio_entry head_fault_world f = audio_entry calm_world f"
  "object_Key f \<noteq> ''audio/18-bb.mp3'' \<Longrightarrow> audio_entry sign_fault_world f = audio_entry calm_world f"
  by (simp_all add: audio_entry_def head_fault_world_def sign_fault_world_def calm_world_def
      object_at_def del: js_split.simps)

text \<open>
  Claim C5. In a listing of identified assets, an object whose metadata fetch faults is
  left out of the answer and the request still succeeds: when every other enumerated
  object has its metadata and its signed URL, the answer is 200 with one entry for each
  of the other objects, in the order of the enumeration, and none for the faulting one.
\<close>

theorem get_api_audio_drops_head_fault:
  "send_list w \<lparr>list_Bucket = S3_BUCKET_NAME w, Prefix = Some ''audio/''\<rparr> = Inr out \<Longrightarrow>
   Contents out = Some files \<Longrightarrow>
   send_head w \<lparr>Bucket = S3_BUCKET_NAME w, Key = k\<rparr> = Inl err \<Longrightarrow>
   \<forall>f \<in> set files. object_Key f \<noteq> k \<longrightarrow>
      (\<exists>metadata signedUrl.
         send_head w \<lparr>Bucket = S3_BUCKET_NAME w, Key = object_Key f\<rparr> = Inr metadata \<and>
         getSignedUrl w \<lparr>Bucket = S3_BUCKET_NAME w, Key = object_Key f\<rparr> 3600 = Inr signedUrl) \<Longrightarrow>
   others = filter (\<lambda>f. object_Key f \<noteq> k) files \<Longrightarrow>
   \<exists>entries.
     fst (get_api_audio w) = \<lparr>status = 200, body = Some (JArr entries)\<rparr> \<and>
     entries = map (audio_entry w) others \<and>
     JNull \<notin> set entries \<and>
     map (\<lambda>j. field j ''id'') entries =
       map (\<lambda>f. Some (JStr (pop (js_split CHR ''/'' (object_Key f))))) others"
proof -
  assume listed: "send_list w \<lparr>list_Bucket = S3_BUCKET_NAME w, Prefix = Some ''audio/''\<rparr> = Inr out"
    "Contents out = Some files"
    and fault: "send_head w \<lparr>Bucket = S3_BUCKET_NAME w, Key = k\<rparr> = Inl err"
    and rest: "\<forall>f \<in> set files. object_Key f \<noteq> k \<longrightarrow>
      (\<exists>metadata signedUrl.
         send_head w \<lparr>Bucket = S3_BUCKET_NAME w, Key = object_Key f\<rparr> = Inr metadata \<and>
         getSignedUrl w \<lparr>Bucket = S3_BUCKET_NAME w, Key = object_Key f\<rparr> 3600 = Inr signedUrl)"
    and others: "others = filter (\<lambda>f. object_Key f \<noteq> k) files"
  have dropped: "\<forall>f \<in> set files. object_Key f = k \<longrightarrow> audio_entry w f = JNull"
    using fault by (auto intro: audio_entry_head_fault)
  note e = entries_without[OF dropped rest]
  have "fst (get_api_audio w) = \<lparr>status = 200, body = Some (JArr (map (audio_entry w) others))\<rparr>"
    using get_api_audio_listed[OF listed] e(1) others by simp
  with e(2,3) others show ?thesis by blast
qed

theorem get_api_audio_drops_head_fault_witness:
  "send_list head_fault_world \<lparr>list_Bucket = S3_BUCKET_NAME head_fault_world, Prefix = Some ''audio/''\<rparr>
     = Inr \<lparr>Contents = Some listing\<rparr> \<and>
   send_head head_fault_world \<lparr>Bucket = S3_BUCKET_NAME head_fault_world, Key = ''audio/18-bb.mp3''\<rparr>
     = Inl slow_down \<and>
   filter (\<lambda>f. object_Key f \<noteq> ''audio/18-bb.mp3'') listing =
     [\<lparr>object_Key = ''audio/17-aa.wav'', LastModified = ''2023-11-14T22:13:20.000Z'', Size = 1000\<rparr>,
      \<lparr>object_Key = ''audio/19-cc.ogg'', LastModified = ''2023-11-14T22:13:22.000Z'', Size = 3000\<rparr>] \<and>
   send_head head_fault_world \<lparr>Bucket = S3_BUCKET_NAME head_fault_world, Key = ''audio/17-aa.wav''\<rparr> =
     Inr \<lparr>head_Metadata = Some [''originalname'' \<mapsto> ''demo.wav'']\<rparr> \<and>
   getSignedUrl head_fault_world \<lparr>Bucket = S3_BUCKET_NAME head_fault_world, Key = ''audio/17-aa.wav''\<rparr> 3600 =
     Inr ''https://signed/audio/17-aa.wav'' \<and>
   send_head head_fault_world \<lparr>Bucket = S3_BUCKET_NAME head_fault_world, Key = ''audio/19-cc.ogg''\<rparr> =
     Inr \<lparr>head_Metadata = Some Map.empty\<rparr> \<and>
   getSignedUrl head_fault_world \<lparr>Bucket = S3_BUCKET_NAME head_fault_world, Key = ''audio/19-cc.ogg''\<rparr> 3600 =
     Inr ''https://signed/audio/19-cc.ogg'' \<and>
   fst (get_api_audio head_fault_world) =
     \<lparr>status = 200,
      body = Some (JArr
        [JObj [(''id'', JStr ''17-aa.wav''), (''name'', JStr ''demo.wav''),
               (''url'', JStr ''https://signed/audio/17-aa.wav''),
               (''lastModified'', JStr ''2023-11-14T22:13:20.000Z''), (''size'', JNum 1000),
               (''type'', JStr ''wav'')],
         JObj [(''id'', JStr ''19-cc.ogg''), (''name'', JStr ''19-cc.ogg''),
               (''url'', JStr ''https://signed/audio/19-cc.ogg''),
               (''lastModified'', JStr ''2023-11-14T22:13:22.000Z''), (''size'', JNum 3000),
               (''type'', JStr ''ogg'')]])\<rparr>"
proof -
  have hyps:
    "send_list head_fault_world \<lparr>list_Bucket = S3_BUCKET_NAME head_fault_world, Prefix = Some ''audio/''\<rparr>
       = Inr \<lparr>Contents = Some listing\<rparr>"
    "Contents \<lparr>Contents = Some listing\<rparr> = Some listing"
    "send_head head_fault_world \<lparr>Bucket = S3_BUCKET_NAME head_fault_world, Key = ''audio/18-bb.mp3''\<rparr>
       = Inl slow_down"
    "\<forall>f \<in> set listing. object_Key f \<noteq> ''audio/18-bb.mp3'' \<longrightarrow>
      (\<exists>metadata signedUrl.
         send_head head_fault_world \<lparr>Bucket = S3_BUCKET_NAME head_fault_world, Key = object_Key f\<rparr>
           = Inr metadata \<and>
         getSignedUrl head_fault_world \<lparr>Bucket = S3_BUCKET_NAME head_fault_world, Key = object_Key f\<rparr> 3600
           = Inr signedUrl)"
    by (simp_all add: head_fault_world_def calm_world_def listing_def)
  have others: "filter (\<lambda>f. object_Key f \<noteq> ''audio/18-bb.mp3'') listing =
      [\<lparr>object_Key = ''audio/17-aa.wav'', LastModified = ''2023-11-14T22:13:20.000Z'', Size = 1000\<rparr>,
       \<lparr>object_Key = ''audio/19-cc.ogg'', LastModified = ''2023-11-14T22:13:22.000Z'', Size = 3000\<rparr>]"
    by (simp add: listing_def)
  have answers:
    "send_head head_fault_world \<lparr>Bucket = S3_BUCKET_NAME head_fault_world, Key = ''audio/17-aa.wav''\<rparr> =
       Inr \<lparr>head_Metadata = Some [''originalname'' \<mapsto> ''demo.wav'']\<rparr>"
    "getSignedUrl head_fault_world \<lparr>Bucket = S3_BUCKET_NAME head_fault_world, Key = ''audio/17-aa.wav''\<rparr> 3600 =
       Inr ''https://signed/audio/17-aa.wav''"
    "send_head head_fault_world \<lparr>Bucket = S3_BUCKET_NAME head_fault_world, Key = ''audio/19-cc.ogg''\<rparr> =
       Inr \<lparr>head_Metadata = Some Map.empty\<rparr>"
    "getSignedUrl head_fault_world \<lparr>Bucket = S3_BUCKET_NAME head_fault_world, Key = ''audio/19-cc.ogg''\<rparr> 3600 =
       Inr ''https://signed/audio/19-cc.ogg''"
    by (simp_all add: head_fault_world_def calm_world_def)
  from get_api_audio_drops_head_fault [OF hyps others [symmetric]]
  have "fst (get_api_audio head_fault_world) =
     \<lparr>status = 200,
      body = Some (JArr
        [JObj [(''id'', JStr ''17-aa.wav''), (''name'', JStr ''demo.wav''),
               (''url'', JStr ''https://signed/audio/17-aa.wav''),
               (''lastModified'', JStr ''2023-11-14T22:13:20.000Z''), (''size'', JNum 1000),
               (''type'', JStr ''wav'')],
         JObj [(''id'', JStr ''19-cc.ogg''), (''name'', JStr ''19-cc.ogg''),
               (''url'', JStr ''https://signed/audio/19-cc.ogg''),
               (''lastModified'', JStr ''2023-11-14T22:13:22.000Z''), (''size'', JNum 3000),
               (''type'', JStr ''ogg'')]])\<rparr>"
    by (auto simp: fault_entries calm_entries simp del: js_split.simps)
  with hyps others answers show ?thesis
    by (simp del: js_split.simps)
qed

text \<open>
  Claim C10. The recovery of the per-object callback covers the minting of the signed URL
  as well: an object whose metadata arrived but whose signing faults is left out of the
  answer in the same way, and the request still succeeds with the other objects.
\<close>

theorem get_api_audio_drops_sign_fault:
  "send_list w \<lparr>list_Bucket = S3_BUCKET_NAME w, Prefix = Some ''audio/''\<rparr> = Inr out \<Longrightarrow>
   Contents out = Some files \<Longrightarrow>
   send_head w \<lparr>Bucket = S3_BUCKET_NAME w, Key = k\<rparr> = Inr fetched \<Longrightarrow>
   getSignedUrl w \<lparr>Bucket = S3_BUCKET_NAME w, Key = k\<rparr> 3600 = Inl err \<Longrightarrow>
   \<forall>f \<in> set files. object_Key f \<noteq> k \<longrightarrow>
      (\<exists>metadata signedUrl.
         send_head w \<lparr>Bucket = S3_BUCKET_NAME w, Key = object_Key f\<rparr> = Inr metadata \<and>
         getSignedUrl w \<lparr>Bucket = S3_BUCKET_NAME w, Key = object_Key f\<rparr> 3600 = Inr signedUrl) \<Longrightarrow>
   others = filter (\<lambda>f. object_Key f \<noteq> k) files \<Longrightarrow>
   \<exists>entries.
     fst (get_api_audio w) = \<lparr>status = 200, body = Some (JArr entries)\<rparr> \<and>
     entries = map (audio_entry w) others \<and>
     JNull \<notin> set entries \<and>
     map (\<lambda>j. field j ''id'') entries =
       map (\<lambda>f. Some (JStr (pop (js_split CHR ''/'' (object_Key f))))) others"
proof -
  assume listed: "send_list w \<lparr>list_Bucket = S3_BUCKET_NAME w, Prefix = Some ''audio/''\<rparr> = Inr out"
    "Contents out = Some files"
    and fault: "getSignedUrl w \<lparr>Bucket = S3_BUCKET_NAME w, Key = k\<rparr> 3600 = Inl err"
    and rest: "\<forall>f \<in> set files. object_Key f \<noteq> k \<longrightarrow>
      (\<exists>metadata signedUrl.
         send_head w \<lparr>Bucket = S3_BUCKET_NAME w, Key = object_Key f\<rparr> = Inr metadata \<and>
         getSignedUrl w \<lparr>Bucket = S3_BUCKET_NAME w, Key = object_Key f\<rparr> 3600 = Inr signedUrl)"
    and others: "others = filter (\<lambda>f. object_Key f \<noteq> k) files"
  have dropped: "\<forall>f \<in> set files. object_Key f = k \<longrightarrow> audio_entry w f = JNull"
    using fault by (auto intro: audio_entry_sign_fault)
  note e = entries_without[OF dropped rest]
  have "fst (get_api_audio w) = \<lparr>status = 200, body = Some (JArr (map (audio_entry w) others))\<rparr>"
    using get_api_audio_listed[OF listed] e(1) others by simp
  with e(2,3) others show ?thesis by blast
qed

theorem get_api_audio_drops_sign_fault_witness:
  "send_list sign_fault_world \<lparr>list_Bucket = S3_BUCKET_NAME sign_fault_world, Prefix = Some ''audio/''\<rparr>
     = Inr \<lparr>Contents = Some listing\<rparr> \<and>
   send_head sign_fault_world \<lparr>Bucket = S3_BUCKET_NAME sign_fault_world, Key = ''audio/18-bb.mp3''\<rparr>
     = Inr \<lparr>head_Metadata = Some [''originalname'' \<mapsto> []]\<rparr> \<and>
   getSignedUrl sign_fault_world \<lparr>Bucket = S3_BUCKET_NAME sign_fault_world, Key = ''audio/18-bb.mp3''\<rparr> 3600
     = Inl slow_down \<and>
   filter (\<lambda>f. object_Key f \<noteq> ''audio/18-bb.mp3'') listing =
     [\<lparr>object_Key = ''audio/17-aa.wav'', LastModified = ''2023-11-14T22:13:20.000Z'', Size = 1000\<rparr>,
      \<lparr>object_Key = ''audio/19-cc.ogg'', LastModified = ''2023-11-14T22:13:22.000Z'', Size = 3000\<rparr>] \<and>
   send_head sign_fault_world \<lparr>Bucket = S3_BUCKET_NAME sign_fault_world, Key = ''audio/17-aa.wav''\<rparr> =
     Inr \<lparr>head_Metadata = Some [''originalname'' \<mapsto> ''demo.wav'']\<rparr> \<and>
   getSignedUrl sign_fault_world \<lparr>Bucket = S3_BUCKET_NAME sign_fault_world, Key = ''audio/17-aa.wav''\<rparr> 3600 =
     Inr ''https://signed/audio/17-aa.wav'' \<and>
   send_head sign_fault_world \<lparr>Bucket = S3_BUCKET_NAME sign_fault_world, Key = ''audio/19-cc.ogg''\<rparr> =
     Inr \<lparr>head_Metadata = Some Map.empty\<rparr> \<and>
   getSignedUrl sign_fault_world \<lparr>Bucket = S3_BUCKET_NAME sign_fault_world, Key = ''audio/19-cc.ogg''\<rparr> 3600 =
     Inr ''https://signed/audio/19-cc.ogg'' \<and>
   fst (get_api_audio sign_fault_world) =
     \<lparr>status = 200,
      body = Some (JArr
        [JObj [(''id'', JStr ''17-aa.wav''), (''name'', JStr ''demo.wav''),
               (''url'', JStr ''https://signed/audio/17-aa.wav''),
               (''lastModified'', JStr ''2023-11-14T22:13:20.000Z''), (''size'', JNum 1000),
               (''type'', JStr ''wav'')],
         JObj [(''id'', JStr ''19-cc.ogg''), (''name'', JStr ''19-cc.ogg''),
               (''url'', JStr ''https://signed/audio/19-cc.ogg''),
               (''lastModified'', JStr ''2023-11-14T22:13:22.000Z''), (''size'', JNum 3000),
               (''type'', JStr ''ogg'')]])\<rparr>"
proof -
  have hyps:
    "send_list sign_fault_world \<lparr>list_Bucket = S3_BUCKET_NAME sign_fault_world, Prefix = Some ''audio/''\<rparr>
       = Inr \<lparr>Contents = Some listing\<rparr>"
    "Contents \<lparr>Contents = Some listing\<rparr> = Some listing"
    "send_head sign_fault_world \<lparr>Bucket = S3_BUCKET_NAME sign_fault_world, Key = ''audio/18-bb.mp3''\<rparr>
       = Inr \<lparr>head_Metadata = Some [''originalname'' \<mapsto> []]\<rparr>"
    "getSignedUrl sign_fault_world \<lparr>Bucket = S3_BUCKET_NAME sign_fault_world, Key = ''audio/18-bb.mp3''\<rparr> 3600
       = Inl slow_down"
    "\<forall>f \<in> set listing. object_Key f \<noteq> ''audio/18-bb.mp3'' \<longrightarrow>
      (\<exists>metadata signedUrl.
         send_head sign_fault_world \<lparr>Bucket = S3_BUCKET_NAME sign_fault_world, Key = object_Key f\<rparr>
           = Inr metadata \<and>
         getSignedUrl sign_fault_world \<lparr>Bucket = S3_BUCKET_NAME sign_fault_world, Key = object_Key f\<rparr> 3600
           = Inr signedUrl)"
    by (simp_all add: sign_fault_world_def calm_world_def listing_def)
  have others: "filter (\<lambda>f. object_Key f \<noteq> ''audio/18-bb.mp3'') listing =
      [\<lparr>object_Key = ''audio/17-aa.wav'', LastModified = ''2023-11-14T22:13:20.000Z'', Size = 1000\<rparr>,
       \<lparr>object_Key = ''audio/19-cc.ogg'', LastModified = ''2023-11-14T22:13:22.000Z'', Size = 3000\<rparr>]"
    by (simp add: listing_def)
  have answers:
    "send_head sign_fault_world \<lparr>Bucket = S3_BUCKET_NAME sign_fault_world, Key = ''audio/17-aa.wav''\<rparr> =
       Inr \<lparr>head_Metadata = Some [''originalname'' \<mapsto> ''demo.wav'']\<rparr>"
    "getSignedUrl sign_fault_world \<lparr>Bucket = S3_BUCKET_NAME sign_fault_world, Key = ''audio/17-aa.wav''\<rparr> 3600 =
       Inr ''https://signed/audio/17-aa.wav''"
    "send_head sign_fault_world \<lparr>Bucket = S3_BUCKET_NAME sign_fault_world, Key = ''audio/19-cc.ogg''\<rparr> =
       Inr \<lparr>head_Metadata = Some Map.empty\<rparr>"
    "getSignedUrl sign_fault_world \<lparr>Bucket = S3_BUCKET_NAME sign_fault_world, Key = ''audio/19-cc.ogg''\<rparr> 3600 =
       Inr ''https://signed/audio/19-cc.ogg''"
    by (simp_all add: sign_fault_world_def calm_world_def)
  from get_api_audio_drops_sign_fault [OF hyps others [symmetric]]
  have "fst (get_api_audio sign_fault_world) =
     \<lparr>status = 200,
      body = Some (JArr
        [JObj [(''id'', JStr ''17-aa.wav''), (''name'', JStr ''demo.wav''),
               (''url'', JStr ''https://signed/audio/17-aa.wav''),
               (''lastModified'', JStr ''2023-11-14T22:13:20.000Z''), (''size'', JNum 1000),
               (''type'', JStr ''wav'')],
         JObj [(''id'', JStr ''19-cc.ogg''), (''name'', JStr ''19-cc.ogg''),
               (''url'', JStr ''https://signed/audio/19-cc.ogg''),
               (''lastModified'', JStr ''2023-11-14T22:13:22.000Z''), (''size'', JNum 3000),
               (''type'', JStr ''ogg'')]])\<rparr>"
    by (auto simp: fault_entries calm_entries simp del: js_split.simps)
  with hyps others answers show ?thesis
    by (simp del: js_split.simps)
qed

text \<open>
  Claim C8. The claim asks for a 200 answer with an array whenever the enumeration
  succeeds, an empty array when it returns no object. The handler calls
  \<^verbatim>\<open>response.Contents.map\<close> without the \<^verbatim>\<open>|| []\<close> of the plain list handler: on a
  successful enumeration whose output has no \<^verbatim>\<open>Contents\<close> member it answers 500, where
  \<^verbatim>\<open>GET /videos\<close> on the same storage service answers 200 with an empty array.
\<close>

theorem get_api_audio_empty_listing:
  "send_list empty_listing_world \<lparr>list_Bucket = Some ''media'', Prefix = Some ''audio/''\<rparr>
     = Inr \<lparr>Contents = None\<rparr> \<and>
   get_api_audio empty_listing_world =
     (\<lparr>status = 500, body = Some (JObj [(''error'', JStr ''Failed to fetch audio recordings'')])\<rparr>,
      [Send (ListObjectsV2Command \<lparr>list_Bucket = Some ''media'', Prefix = Some ''audio/''\<rparr>)]) \<and>
   get_videos empty_listing_world =
     (\<lparr>status = 200, body = Some (JArr [])\<rparr>,
      [Send (ListObjectsV2Command \<lparr>list_Bucket = Some ''media'', Prefix = None\<rparr>)])"
  by (simp add: empty_listing_world_def calm_world_def get_api_audio_def get_videos_def
      json_response_def Let_def)

section \<open>Display names\<close>

text \<open>
  Claim C9, as the code has it. The list and get-by-id operations return an asset only
  when its metadata fetch (and its signing) succeeded. The display name is then the
  metadata attribute \<^verbatim>\<open>originalname\<close> when it is present and not the empty string;
  otherwise (no metadata map, no such attribute, or an empty one) it is the trailing
  path segment of the key in the listing and the requested identifier in get-by-id,
  which is the trailing segment of \<^verbatim>\<open>audio/{id}\<close> for an identifier without a slash.
  When the metadata fetch faults no name is produced: the listing has no entry for the
  object and get-by-id answers with an error that carries no name.
\<close>

theorem display_name_recovery:
  "ref = (\<lambda>k. \<lparr>Bucket = S3_BUCKET_NAME w, Key = k\<rparr>) \<Longrightarrow>
   listed = field (audio_entry w f) ''name'' \<Longrightarrow>
   fetched = body_field (fst (get_api_audio_id w req)) ''name'' \<Longrightarrow>
   (\<forall>err. send_head w (ref (object_Key f)) = Inl err \<longrightarrow> audio_entry w f = JNull) \<and>
   (\<forall>err. send_head w (ref (''audio/'' @ params_id req)) = Inl err \<longrightarrow> fetched = None) \<and>
   (\<forall>metadata signedUrl.
      send_head w (ref (object_Key f)) = Inr metadata \<and>
      getSignedUrl w (ref (object_Key f)) 3600 = Inr signedUrl \<longrightarrow>
      (\<forall>m n. head_Metadata metadata = Some m \<and> m ''originalname'' = Some n \<and> n \<noteq> [] \<longrightarrow>
         listed = Some (JStr n)) \<and>
      (head_Metadata metadata = None \<or>
       (\<exists>m. head_Metadata metadata = Some m \<and>
            (m ''originalname'' = None \<or> m ''originalname'' = Some [])) \<longrightarrow>
         listed = Some (JStr (pop (js_split CHR ''/'' (object_Key f)))))) \<and>
   (\<forall>metadata signedUrl.
      send_head w (ref (''audio/'' @ params_id req)) = Inr metadata \<and>
      getSignedUrl w (ref (''audio/'' @ params_id req)) 3600 = Inr signedUrl \<longrightarrow>
      (\<forall>m n. head_Metadata metadata = Some m \<and> m ''originalname'' = Some n \<and> n \<noteq> [] \<longrightarrow>
         fetched = Some (JStr n)) \<and>
      (head_Metadata metadata = None \<or>
       (\<exists>m. head_Metadata metadata = Some m \<and>
            (m ''originalname'' = None \<or> m ''originalname'' = Some [])) \<longrightarrow>
         fetched = Some (JStr (params_id req)))) \<and>
   (CHR ''/'' \<notin> set (params_id req) \<longrightarrow>
      pop (js_split CHR ''/'' (''audio/'' @ params_id req)) = params_id req)"
proof -
  assume ref: "ref = (\<lambda>k. \<lparr>Bucket = S3_BUCKET_NAME w, Key = k\<rparr>)"
    and listed: "listed = field (audio_entry w f) ''name''"
    and fetched: "fetched = body_field (fst (get_api_audio_id w req)) ''name''"
  have a: "\<forall>err. send_head w (ref (object_Key f)) = Inl err \<longrightarrow> audio_entry w f = JNull"
    by (simp add: ref audio_entry_head_fault)
  have b: "\<forall>err. send_head w (ref (''audio/'' @ params_id req)) = Inl err \<longrightarrow> fetched = None"
    by (simp add: ref fetched get_api_audio_id_def get_audio_failed_def object_at_def
        body_field_def json_response_def Let_def)
  have c: "\<forall>metadata signedUrl.
      send_head w (ref (object_Key f)) = Inr metadata \<and>
      getSignedUrl w (ref (object_Key f)) 3600 = Inr signedUrl \<longrightarrow>
      (\<forall>m n. head_Metadata metadata = Some m \<and> m ''originalname'' = Some n \<and> n \<noteq> [] \<longrightarrow>
         listed = Some (JStr n)) \<and>
      (head_Metadata metadata = None \<or>
       (\<exists>m. head_Metadata metadata = Some m \<and>
            (m ''originalname'' = None \<or> m ''originalname'' = Some [])) \<longrightarrow>
         listed = Some (JStr (pop (js_split CHR ''/'' (object_Key f)))))"
    by (auto simp: ref listed audio_entry_fetched js_or_def metadata_originalname_def
        simp del: js_split.simps)
  have d: "\<forall>metadata signedUrl.
      send_head w (ref (''audio/'' @ params_id req)) = Inr metadata \<and>
      getSignedUrl w (ref (''audio/'' @ params_id req)) 3600 = Inr signedUrl \<longrightarrow>
      (\<forall>m n. head_Metadata metadata = Some m \<and> m ''originalname'' = Some n \<and> n \<noteq> [] \<longrightarrow>
         fetched = Some (JStr n)) \<and>
      (head_Metadata metadata = None \<or>
       (\<exists>m. head_Metadata metadata = Some m \<and>
            (m ''originalname'' = None \<or> m ''originalname'' = Some [])) \<longrightarrow>
         fetched = Some (JStr (params_id req)))"
    by (auto simp: ref fetched get_api_audio_id_def object_at_def body_field_def json_response_def
        js_or_def metadata_originalname_def Let_def)
  have e: "CHR ''/'' \<notin> set (params_id req) \<longrightarrow>
      pop (js_split CHR ''/'' (''audio/'' @ params_id req)) = params_id req"
    using pop_js_split_append[of "CHR ''/''" "params_id req" "''audio''"] by simp
  from a b c d e show ?thesis by blast
qed

theorem display_name_recovery_witness:
  "send_head calm_world \<lparr>Bucket = S3_BUCKET_NAME calm_world, Key = ''audio/17-aa.wav''\<rparr> =
     Inr \<lparr>head_Metadata = Some [''originalname'' \<mapsto> ''demo.wav'']\<rparr> \<and>
   getSignedUrl calm_world \<lparr>Bucket = S3_BUCKET_NAME calm_world, Key = ''audio/17-aa.wav''\<rparr> 3600 =
     Inr ''https://signed/audio/17-aa.wav'' \<and>
   field (audio_entry calm_world
      \<lparr>object_Key = ''audio/17-aa.wav'', LastModified = ''2023-11-14T22:13:20.000Z'', Size = 1000\<rparr>)
     ''name'' = Some (JStr ''demo.wav'') \<and>
   body_field (fst (get_api_audio_id calm_world (id_request ''17-aa.wav''))) ''name'' =
     Some (JStr ''demo.wav'') \<and>
   send_head calm_world \<lparr>Bucket = S3_BUCKET_NAME calm_world, Key = ''audio/19-cc.ogg''\<rparr> =
     Inr \<lparr>head_Metadata = Some Map.empty\<rparr> \<and>
   getSignedUrl calm_world \<lparr>Bucket = S3_BUCKET_NAME calm_world, Key = ''audio/19-cc.ogg''\<rparr> 3600 =
     Inr ''https://signed/audio/19-cc.ogg'' \<and>
   field (audio_entry calm_world
      \<lparr>object_Key = ''audio/19-cc.ogg'', LastModified = ''2023-11-14T22:13:22.000Z'', Size = 3000\<rparr>)
     ''name'' = Some (JStr ''19-cc.ogg'') \<and>
   body_field (fst (get_api_audio_id calm_world (id_request ''19-cc.ogg''))) ''name'' =
     Some (JStr ''19-cc.ogg'') \<and>
   send_head head_fault_world \<lparr>Bucket = S3_BUCKET_NAME head_fault_world, Key = ''audio/18-bb.mp3''\<rparr> =
     Inl slow_down \<and>
   audio_entry head_fault_world
      \<lparr>object_Key = ''audio/18-bb.mp3'', LastModified = ''2023-11-14T22:13:21.000Z'', Size = 2000\<rparr>
     = JNull \<and>
   body_field (fst (get_api_audio_id head_fault_world (id_request ''18-bb.mp3''))) ''name'' = None \<and>
   CHR ''/'' \<notin> set (params_id (id_request ''17-aa.wav'')) \<and>
   pop (js_split CHR ''/'' (''audio/'' @ params_id (id_request ''17-aa.wav''))) = ''17-aa.wav''"
proof -
  note first = display_name_recovery [OF refl refl refl, of calm_world
      "\<lparr>object_Key = ''audio/17-aa.wav'', LastModified = ''2023-11-14T22:13:20.000Z'', Size = 1000\<rparr>"
      "id_request ''17-aa.wav''"]
  note third = display_name_recovery [OF refl refl refl, of calm_world
      "\<lparr>object_Key = ''audio/19-cc.ogg'', LastModified = ''2023-11-14T22:13:22.000Z'', Size = 3000\<rparr>"
      "id_request ''19-cc.ogg''"]
  note second = display_name_recovery [OF refl refl refl, of head_fault_world
      "\<lparr>object_Key = ''audio/18-bb.mp3'', LastModified = ''2023-11-14T22:13:21.000Z'', Size = 2000\<rparr>"
      "id_request ''18-bb.mp3''"]
  have heads:
    "send_head calm_world \<lparr>Bucket = S3_BUCKET_NAME calm_world, Key = ''audio/17-aa.wav''\<rparr> =
       Inr \<lparr>head_Metadata = Some [''originalname'' \<mapsto> ''demo.wav'']\<rparr>"
    "getSignedUrl calm_world \<lparr>Bucket = S3_BUCKET_NAME calm_world, Key = ''audio/17-aa.wav''\<rparr> 3600 =
       Inr ''https://signed/audio/17-aa.wav''"
    "send_head calm_world \<lparr>Bucket = S3_BUCKET_NAME calm_world, Key = ''audio/19-cc.ogg''\<rparr> =
       Inr \<lparr>head_Metadata = Some Map.empty\<rparr>"
    "getSignedUrl calm_world \<lparr>Bucket = S3_BUCKET_NAME calm_world, Key = ''audio/19-cc.ogg''\<rparr> 3600 =
       Inr ''https://signed/audio/19-cc.ogg''"
    "send_head head_fault_world \<lparr>Bucket = S3_BUCKET_NAME head_fault_world, Key = ''audio/18-bb.mp3''\<rparr> =
       Inl slow_down"
    by (simp_all add: calm_world_def head_fault_world_def)
  have ids: "params_id (id_request ''17-aa.wav'') = ''17-aa.wav''"
    "params_id (id_request ''19-cc.ogg'') = ''19-cc.ogg''"
    "params_id (id_request ''18-bb.mp3'') = ''18-bb.mp3''"
    by (simp_all add: id_request_def)
  from first heads(1,2) ids(1)
  have one: "field (audio_entry calm_world
      \<lparr>object_Key = ''audio/17-aa.wav'', LastModified = ''2023-11-14T22:13:20.000Z'', Size = 1000\<rparr>)
     ''name'' = Some (JStr ''demo.wav'')"
    "body_field (fst (get_api_audio_id calm_world (id_request ''17-aa.wav''))) ''name'' =
     Some (JStr ''demo.wav'')"
    "pop (js_split CHR ''/'' (''audio/'' @ params_id (id_request ''17-aa.wav''))) = ''17-aa.wav''"
    by (simp_all del: js_split.simps)
  from third heads(3,4) ids(2)
  have three: "field (audio_entry calm_world
      \<lparr>object_Key = ''audio/19-cc.ogg'', LastModified = ''2023-11-14T22:13:22.000Z'', Size = 3000\<rparr>)
     ''name'' = Some (JStr ''19-cc.ogg'')"
    "body_field (fst (get_api_audio_id calm_world (id_request ''19-cc.ogg''))) ''name'' =
     Some (JStr ''19-cc.ogg'')"
    by (simp_all add: pop_js_split_Cons del: js_split.simps)
  from second heads(5) ids(3)
  have two: "audio_entry head_fault_world
      \<lparr>object_Key = ''audio/18-bb.mp3'', LastModified = ''2023-11-14T22:13:21.000Z'', Size = 2000\<rparr>
     = JNull"
    "body_field (fst (get_api_audio_id head_fault_world (id_request ''18-bb.mp3''))) ''name'' = None"
    by (simp_all del: js_split.simps)
  from heads one three two ids(1) show ?thesis
    by (simp del: js_split.simps)
qed

text \<open>
  The claim as it was stated fails where the metadata fetch faults: get-by-id answers 500
  without any name instead of falling back to the identifier, and the listing drops the
  object. It also fails for an attribute that is present but empty, where the fallback
  is used.
\<close>

theorem display_name_counterexample:
  "send_head head_fault_world \<lparr>Bucket = Some ''media'', Key = ''audio/18-bb.mp3''\<rparr> = Inl slow_down \<and>
   get_api_audio_id head_fault_world (id_request ''18-bb.mp3'') =
     (\<lparr>status = 500, body = Some (JObj [(''error'', JStr ''Failed to fetch audio recording'')])\<rparr>,
      [Send (HeadObjectCommand \<lparr>Bucket = Some ''media'', Key = ''audio/18-bb.mp3''\<rparr>)]) \<and>
   body_field (fst (get_api_audio_id head_fault_world (id_request ''18-bb.mp3''))) ''name''
     \<noteq> Some (JStr ''18-bb.mp3'') \<and>
   audio_entry head_fault_world
      \<lparr>object_Key = ''audio/18-bb.mp3'', LastModified = ''2023-11-14T22:13:21.000Z'', Size = 2000\<rparr>
     = JNull \<and>
   send_head calm_world \<lparr>Bucket = Some ''media'', Key = ''audio/18-bb.mp3''\<rparr> =
     Inr \<lparr>head_Metadata = Some [''originalname'' \<mapsto> []]\<rparr> \<and>
   body_field (fst (get_api_audio_id calm_world (id_request ''18-bb.mp3''))) ''name''
     = Some (JStr ''18-bb.mp3'')"
  by (simp add: head_fault_world_def calm_world_def id_request_def slow_down_def
      get_api_audio_id_def get_audio_failed_def audio_entry_def object_at_def body_field_def
      json_response_def js_or_def metadata_originalname_def Let_def del: js_split.simps)

section \<open>What a server error carries\<close>

text \<open>
  Claim C2, as the code has it. The two upload handlers answer a storage fault with 500,
  their error label and the fault's message under \<^verbatim>\<open>details\<close>. The other four handlers
  (\<^verbatim>\<open>GET /videos\<close>, \<^verbatim>\<open>GET /api/audio\<close>, \<^verbatim>\<open>GET /api/audio/:id\<close>, \<^verbatim>\<open>DELETE /api/audio/:id\<close>)
  answer 500 with their error label alone.
\<close>

theorem server_error_bodies:
  "(status (fst (post_upload w req)) = 500 \<longrightarrow>
      (\<exists>f err. req_file req = Some f \<and> send_put w (upload_params w f) = Inl err \<and>
         body (fst (post_upload w req)) =
           Some (JObj [(''error'', JStr ''Upload failed''), (''details'', JStr (message err))]))) \<and>
   (status (fst (post_api_audio w parse_err req)) = 500 \<longrightarrow>
      (\<exists>f err. req_file req = Some f \<and>
         (send_put w (audio_params w f) = Inl err \<or>
          (\<exists>u. send_put w (audio_params w f) = Inr u \<and>
             getSignedUrl w \<lparr>Bucket = S3_BUCKET_NAME w, Key = Key (audio_params w f)\<rparr> 3600 = Inl err)) \<and>
         body (fst (post_api_audio w parse_err req)) =
           Some (JObj [(''error'', JStr ''Audio upload failed''), (''details'', JStr (message err))]))) \<and>
   (status (fst (get_videos w)) = 500 \<longrightarrow>
      body (fst (get_videos w)) = Some (JObj [(''error'', JStr ''Failed to fetch videos'')])) \<and>
   (status (fst (get_api_audio w)) = 500 \<longrightarrow>
      body (fst (get_api_audio w)) = Some (JObj [(''error'', JStr ''Failed to fetch audio recordings'')])) \<and>
   (status (fst (get_api_audio_id w req)) = 500 \<longrightarrow>
      body (fst (get_api_audio_id w req)) =
        Some (JObj [(''error'', JStr ''Failed to fetch audio recording'')])) \<and>
   (status (fst (delete_api_audio_id w req)) = 500 \<longrightarrow>
      body (fst (delete_api_audio_id w req)) =
        Some (JObj [(''error'', JStr ''Failed to delete audio recording'')]))"
proof -
  have upload: "status (fst (post_upload w req)) = 500 \<longrightarrow>
      (\<exists>f err. req_file req = Some f \<and> send_put w (upload_params w f) = Inl err \<and>
         body (fst (post_upload w req)) =
           Some (JObj [(''error'', JStr ''Upload failed''), (''details'', JStr (message err))]))"
    by (auto simp: post_upload_def json_response_def Let_def split: option.splits sum.splits)
  have audio: "status (fst (post_api_audio w parse_err req)) = 500 \<longrightarrow>
      (\<exists>f err. req_file req = Some f \<and>
         (send_put w (audio_params w f) = Inl err \<or>
          (\<exists>u. send_put w (audio_params w f) = Inr u \<and>
             getSignedUrl w \<lparr>Bucket = S3_BUCKET_NAME w, Key = Key (audio_params w f)\<rparr> 3600 = Inl err)) \<and>
         body (fst (post_api_audio w parse_err req)) =
           Some (JObj [(''error'', JStr ''Audio upload failed''), (''details'', JStr (message err))]))"
    by (auto simp: post_api_audio_def json_response_def object_at_def Let_def
        split: option.splits sum.splits)
  have videos: "status (fst (get_videos w)) = 500 \<longrightarrow>
      body (fst (get_videos w)) = Some (JObj [(''error'', JStr ''Failed to fetch videos'')])"
    by (auto simp: get_videos_def json_response_def Let_def split: option.splits sum.splits)
  have audios: "status (fst (get_api_audio w)) = 500 \<longrightarrow>
      body (fst (get_api_audio w)) = Some (JObj [(''error'', JStr ''Failed to fetch audio recordings'')])"
    by (auto simp: get_api_audio_def json_response_def Let_def split: option.splits sum.splits)
  have one: "status (fst (get_api_audio_id w req)) = 500 \<longrightarrow>
      body (fst (get_api_audio_id w req)) =
        Some (JObj [(''error'', JStr ''Failed to fetch audio recording'')])"
    by (auto simp: get_api_audio_id_def get_audio_failed_def json_response_def Let_def
        split: option.splits sum.splits if_splits)
  have del: "status (fst (delete_api_audio_id w req)) = 500 \<longrightarrow>
      body (fst (delete_api_audio_id w req)) =
        Some (JObj [(''error'', JStr ''Failed to delete audio recording'')])"
    by (auto simp: delete_api_audio_id_def json_response_def Let_def split: sum.splits)
  from upload audio videos audios one del show ?thesis by blast
qed

theorem server_error_bodies_witness:
  "status (fst (post_upload faulty_world clip_request)) = 500 \<and>
   send_put faulty_world (upload_params faulty_world clip_file) = Inl slow_down \<and>
   body (fst (post_upload faulty_world clip_request)) =
     Some (JObj [(''error'', JStr ''Upload failed''),
                 (''details'', JStr ''Please reduce your request rate.'')]) \<and>
   status (fst (post_api_audio faulty_world None demo_request)) = 500 \<and>
   body (fst (post_api_audio faulty_world None demo_request)) =
     Some (JObj [(''error'', JStr ''Audio upload failed''),
                 (''details'', JStr ''Please reduce your request rate.'')]) \<and>
   status (fst (get_videos faulty_world)) = 500 \<and>
   body (fst (get_videos faulty_world)) = Some (JObj [(''error'', JStr ''Failed to fetch videos'')]) \<and>
   status (fst (get_api_audio faulty_world)) = 500 \<and>
   body (fst (get_api_audio faulty_world)) =
     Some (JObj [(''error'', JStr ''Failed to fetch audio recordings'')]) \<and>
   status (fst (get_api_audio_id faulty_world (id_request ''17-aa.wav''))) = 500 \<and>
   body (fst (get_api_audio_id faulty_world (id_request ''17-aa.wav''))) =
     Some (JObj [(''error'', JStr ''Failed to fetch audio recording'')]) \<and>
   status (fst (delete_api_audio_id faulty_world (id_request ''17-aa.wav''))) = 500 \<and>
   body (fst (delete_api_audio_id faulty_world (id_request ''17-aa.wav''))) =
     Some (JObj [(''error'', JStr ''Failed to delete audio recording'')])"
proof -
  have statuses:
    "status (fst (post_upload faulty_world clip_request)) = 500"
    "status (fst (post_api_audio faulty_world None demo_request)) = 500"
    "status (fst (get_videos faulty_world)) = 500"
    "status (fst (get_api_audio faulty_world)) = 500"
    "status (fst (get_api_audio_id faulty_world (id_request ''17-aa.wav''))) = 500"
    "status (fst (delete_api_audio_id faulty_world (id_request ''17-aa.wav''))) = 500"
    by (simp_all add: faulty_world_def calm_world_def clip_request_def demo_request_def
        id_request_def slow_down_def post_upload_def post_api_audio_def get_videos_def
        get_api_audio_def get_api_audio_id_def get_audio_failed_def delete_api_audio_id_def
        json_response_def Let_def del: js_split.simps)
  have puts: "send_put faulty_world p = Inl slow_down" for p
    by (simp add: faulty_world_def)
  have files: "req_file clip_request = Some clip_file" "req_file demo_request = Some demo_file"
    by (simp_all add: clip_request_def demo_request_def)
  have msg: "message slow_down = ''Please reduce your request rate.''"
    by (simp add: slow_down_def)
  from server_error_bodies [of faulty_world clip_request None] statuses(1,3,4) puts files(1) msg
  have a: "body (fst (post_upload faulty_world clip_request)) =
     Some (JObj [(''error'', JStr ''Upload failed''),
                 (''details'', JStr ''Please reduce your request rate.'')])"
    "body (fst (get_videos faulty_world)) = Some (JObj [(''error'', JStr ''Failed to fetch videos'')])"
    "body (fst (get_api_audio faulty_world)) =
     Some (JObj [(''error'', JStr ''Failed to fetch audio recordings'')])"
    by auto
  from server_error_bodies [of faulty_world demo_request None] statuses(2) puts files(2) msg
  have b: "body (fst (post_api_audio faulty_world None demo_request)) =
     Some (JObj [(''error'', JStr ''Audio upload failed''),
                 (''details'', JStr ''Please reduce your request rate.'')])"
    by auto
  from server_error_bodies [of faulty_world "id_request ''17-aa.wav''" None] statuses(5,6)
  have c: "body (fst (get_api_audio_id faulty_world (id_request ''17-aa.wav''))) =
     Some (JObj [(''error'', JStr ''Failed to fetch audio recording'')])"
    "body (fst (delete_api_audio_id faulty_world (id_request ''17-aa.wav''))) =
     Some (JObj [(''error'', JStr ''Failed to delete audio recording'')])"
    by auto
  from statuses puts a b c show ?thesis by simp
qed

text \<open>
  The claim as it was stated fails on the delete handler (and likewise on the three read
  handlers): the storage fault is answered 500 with the label only, and the fault's
  message is nowhere in the body.
\<close>

theorem server_error_counterexample:
  "send_delete faulty_world \<lparr>Bucket = Some ''media'', Key = ''audio/17-aa.wav''\<rparr> =
     Inl \<lparr>name = ''SlowDown'', message = ''Please reduce your request rate.''\<rparr> \<and>
   delete_api_audio_id faulty_world (id_request ''17-aa.wav'') =
     (\<lparr>status = 500, body = Some (JObj [(''error'', JStr ''Failed to delete audio recording'')])\<rparr>,
      [Send (DeleteObjectCommand \<lparr>Bucket = Some ''media'', Key = ''audio/17-aa.wav''\<rparr>)]) \<and>
   body_field (fst (delete_api_audio_id faulty_world (id_request ''17-aa.wav''))) ''details'' = None"
  by (simp add: faulty_world_def calm_world_def id_request_def slow_down_def
      delete_api_audio_id_def object_at_def body_field_def json_response_def Let_def)

end
